theory Spec2Isabelle
  imports Complex_Main
begin

section \<open>Python strings\<close>

text \<open>
  A Python \<open>str\<close> is modelled as a \<open>string\<close>: one \<open>char\<close> per code point, so the model
  covers the code points below 256 (ASCII and Latin-1).  \<open>len\<close> is \<open>length\<close>, slicing
  \<open>s[:n]\<close> is \<open>take n s\<close>.  The predicates below are the restrictions of
  \<open>str.isspace\<close>, \<open>str.isalnum\<close>, \<open>str.lower\<close> to that range.
\<close>

definition nl :: char where
  "nl = CHR 0x0A"

definition cr :: char where
  "cr = CHR 0x0D"

definition in_range :: "nat \<Rightarrow> nat \<Rightarrow> char \<Rightarrow> bool" where
  "in_range lo hi c = (lo \<le> of_char c \<and> (of_char c :: nat) \<le> hi)"

definition is_space :: "char \<Rightarrow> bool" where
  "is_space c = (in_range 9 13 c \<or> in_range 28 32 c \<or> in_range 133 133 c \<or> in_range 160 160 c)"

definition is_digit :: "char \<Rightarrow> bool" where
  "is_digit c = in_range 48 57 c"

definition is_ascii_upper :: "char \<Rightarrow> bool" where
  "is_ascii_upper c = in_range 65 90 c"

definition is_ascii_lower :: "char \<Rightarrow> bool" where
  "is_ascii_lower c = in_range 97 122 c"

definition is_alnum :: "char \<Rightarrow> bool" where
  "is_alnum c = (is_digit c \<or> is_ascii_upper c \<or> is_ascii_lower c
     \<or> in_range 170 170 c \<or> in_range 178 179 c \<or> in_range 181 181 c
     \<or> in_range 185 186 c \<or> in_range 188 190 c
     \<or> in_range 192 214 c \<or> in_range 216 246 c \<or> in_range 248 255 c)"


definition lower_char :: "char \<Rightarrow> char" where
  "lower_char c = (if is_ascii_upper c \<or> in_range 192 214 c \<or> in_range 216 222 c
                   then char_of (of_char c + (32::nat)) else c)"


definition lstrip :: "string \<Rightarrow> string" where
  "lstrip s = dropWhile is_space s"

definition rstrip :: "string \<Rightarrow> string" where
  "rstrip s = rev (dropWhile is_space (rev s))"

definition strip :: "string \<Rightarrow> string" where
  "strip s = rstrip (lstrip s)"

fun join :: "string \<Rightarrow> string list \<Rightarrow> string" where
  "join sep [] = []"
| "join sep [x] = x"
| "join sep (x # y # ys) = x @ sep @ join sep (y # ys)"

section \<open>Regular expressions of the \<open>re\<close> module\<close>

text \<open>
  The patterns of the program are written in the syntax tree \<open>rx\<close> and run by a backtracking
  matcher that tries the alternatives in the order of Python's \<open>re\<close>: a greedy star tries
  one more iteration first, a lazy star tries to stop first, an alternation tries its left
  branch first.  \<open>rmatch r st\<close> lists every way \<open>r\<close> can match at the state \<open>st\<close>, in that
  order, so the head of the list is the match \<open>re\<close> reports.  A state holds whether the
  position is at the start of a line (for \<open>^\<close> under MULTILINE), the rest of the subject,
  and the groups captured so far.  Every starred sub-pattern of the program consumes at
  least one character per iteration; iterations that consume nothing are cut.
\<close>

datatype rx =
    Eps
  | Chr "char \<Rightarrow> bool"
  | Seq rx rx
  | Alt rx rx
  | Star rx
  | LazyStar rx
  | Grp nat rx
  | Bol
  | Eol
  | EolM
  | Ahead rx

type_synonym groups = "(nat \<times> string) list"
type_synonym mstate = "bool \<times> string \<times> groups"

fun rest_of :: "mstate \<Rightarrow> string" where
  "rest_of (b, s, g) = s"

function (sequential) rmatch :: "rx \<Rightarrow> mstate \<Rightarrow> mstate list" where
  "rmatch Eps st = [st]"
| "rmatch (Chr P) (b, [], g) = []"
| "rmatch (Chr P) (b, c # cs, g) = (if P c then [(c = nl, cs, g)] else [])"
| "rmatch (Seq r1 r2) st = concat (map (rmatch r2) (rmatch r1 st))"
| "rmatch (Alt r1 r2) st = rmatch r1 st @ rmatch r2 st"
| "rmatch (Star r) (b, s, g) =
     concat (map (\<lambda>st'. if length (rest_of st') < length s then rmatch (Star r) st' else [])
                 (rmatch r (b, s, g))) @ [(b, s, g)]"
| "rmatch (LazyStar r) (b, s, g) =
     (b, s, g) #
     concat (map (\<lambda>st'. if length (rest_of st') < length s then rmatch (LazyStar r) st' else [])
                 (rmatch r (b, s, g)))"
| "rmatch (Grp n r) (b, s, g) =
     map (\<lambda>(b', s', g'). (b', s', (n, take (length s - length s') s) # g')) (rmatch r (b, s, g))"
| "rmatch Bol (b, s, g) = (if b then [(b, s, g)] else [])"
| "rmatch Eol (b, s, g) = (if s = [] \<or> s = [nl] then [(b, s, g)] else [])"
| "rmatch EolM (b, s, g) = (if s = [] \<or> hd s = nl then [(b, s, g)] else [])"
| "rmatch (Ahead r) st = (if rmatch r st = [] then [] else [st])"
  by pat_completeness auto
termination
  by (relation "measures [\<lambda>(r, st). size r, \<lambda>(r, st). length (rest_of st)]") auto

text \<open>
  \<open>re.sub(pattern, repl, s)\<close>: scan from the left; where the pattern matches, emit the
  replacement (a function of the matched text and the groups) and go on after the match;
  elsewhere copy one character.  No pattern of the program matches the empty string; for
  completeness an empty match emits its replacement and the scan moves on by one character.
\<close>

function re_sub_at :: "rx \<Rightarrow> (string \<Rightarrow> groups \<Rightarrow> string) \<Rightarrow> bool \<Rightarrow> string \<Rightarrow> string" where
  "re_sub_at r f b s =
     (case rmatch r (b, s, []) of
        [] \<Rightarrow> (case s of [] \<Rightarrow> [] | c # cs \<Rightarrow> c # re_sub_at r f (c = nl) cs)
      | (b', s', g) # _ \<Rightarrow>
          if length s' < length s
          then f (take (length s - length s') s) g @ re_sub_at r f b' s'
          else f [] g @ (case s of [] \<Rightarrow> [] | c # cs \<Rightarrow> c # re_sub_at r f (c = nl) cs))"
  by pat_completeness auto
termination
  by (relation "measure (\<lambda>(r, f, b, s). length s)") auto

declare re_sub_at.simps [simp del]

definition re_sub :: "rx \<Rightarrow> (string \<Rightarrow> groups \<Rightarrow> string) \<Rightarrow> string \<Rightarrow> string" where
  "re_sub r f s = re_sub_at r f True s"

text \<open>\<open>m.group(n)\<close>; a group that took no part in the match is the empty string in a template.\<close>

definition grp :: "groups \<Rightarrow> nat \<Rightarrow> string" where
  "grp g n = (case map_of g n of None \<Rightarrow> [] | Some s \<Rightarrow> s)"

text \<open>\<open>re.search\<close>: the leftmost match, as the matched text and its groups.\<close>

fun re_search_at :: "rx \<Rightarrow> bool \<Rightarrow> string \<Rightarrow> (string \<times> groups) option" where
  "re_search_at r b [] =
     (case rmatch r (b, [], []) of [] \<Rightarrow> None | (b', s', g) # _ \<Rightarrow> Some ([], g))"
| "re_search_at r b (c # cs) =
     (case rmatch r (b, c # cs, []) of
        [] \<Rightarrow> re_search_at r (c = nl) cs
      | (b', s', g) # _ \<Rightarrow> Some (take (length (c # cs) - length s') (c # cs), g))"

definition re_search :: "rx \<Rightarrow> string \<Rightarrow> (string \<times> groups) option" where
  "re_search r s = re_search_at r True s"





text \<open>\<open>re.match\<close>: a match at the start of the subject only.\<close>

definition re_match :: "rx \<Rightarrow> string \<Rightarrow> bool" where
  "re_match r s = (rmatch r (True, s, []) \<noteq> [])"

text \<open>Pattern syntax: literals, \<open>+\<close>, \<open>?\<close>, classes.\<close>

definition lit :: "char \<Rightarrow> rx" where
  "lit c = Chr (\<lambda>x. x = c)"

definition lit_i :: "char \<Rightarrow> rx" where
  "lit_i c = Chr (\<lambda>x. lower_char x = lower_char c)"

fun lits :: "string \<Rightarrow> rx" where
  "lits [] = Eps"
| "lits (c # cs) = Seq (lit c) (lits cs)"

fun lits_i :: "string \<Rightarrow> rx" where
  "lits_i [] = Eps"
| "lits_i (c # cs) = Seq (lit_i c) (lits_i cs)"

definition Plus :: "rx \<Rightarrow> rx" where
  "Plus r = Seq r (Star r)"

definition Opt :: "rx \<Rightarrow> rx" where
  "Opt r = Alt r Eps"

definition dot :: rx where
  "dot = Chr (\<lambda>c. c \<noteq> nl)"

definition dot_all :: rx where
  "dot_all = Chr (\<lambda>c. True)"

definition ws :: rx where
  "ws = Chr is_space"

definition non_ws :: rx where
  "non_ws = Chr (\<lambda>c. \<not> is_space c)"

fun seqs :: "rx list \<Rightarrow> rx" where
  "seqs [] = Eps"
| "seqs [r] = r"
| "seqs (r # rs) = Seq r (seqs rs)"

section \<open>Filenames\<close>






section \<open>Markdown to HTML\<close>

text \<open>\<open>s.split(d)\<close> for a one-character separator, and \<open>s.replace(old, new)\<close> for a non-empty \<open>old\<close>.\<close>

fun split_on :: "char \<Rightarrow> string \<Rightarrow> string list" where
  "split_on d [] = [[]]"
| "split_on d (c # cs) =
     (if c = d then [] # split_on d cs
      else (case split_on d cs of [] \<Rightarrow> [[c]] | x # xs \<Rightarrow> (c # x) # xs))"

function replace_str :: "string \<Rightarrow> string \<Rightarrow> string \<Rightarrow> string" where
  "replace_str old new [] = []"
| "replace_str old new (c # cs) =
     (if old \<noteq> [] \<and> take (length old) (c # cs) = old
      then new @ replace_str old new (drop (length old) (c # cs))
      else c # replace_str old new cs)"
  by pat_completeness auto
termination
  by (relation "measure (\<lambda>(old, new, s). length s)") (auto simp: neq_Nil_conv)

subsection \<open>\<open>clean_ai_artifacts\<close>\<close>

definition remove :: "string \<Rightarrow> groups \<Rightarrow> string" where
  "remove m g = []"

text \<open>\<open>\[.*?\]\<close>\<close>

definition rx_bracketed :: rx where
  "rx_bracketed = seqs [lit CHR ''['', LazyStar dot, lit CHR '']'']"

text \<open>\<open>\s*@\S+\<close>\<close>

definition rx_at_word :: rx where
  "rx_at_word = seqs [Star ws, lit CHR ''@'', Plus non_ws]"

definition placeholder_domains :: "string list" where
  "placeholder_domains =
     [''example.com'', ''example.org'', ''placeholder.com'', ''yoursite.com'',
      ''website.com'', ''domain.com'', ''site.com'', ''yourblogname.com'', ''ai-generated.com'',
      ''yourcryptoblog.com'',
      ''example.org'']"

text \<open>\<open>https?://(?:www\.)?DOMAIN\<close>, IGNORECASE; \<open>re.escape\<close> makes the domain a literal.\<close>

definition rx_url_of :: "string \<Rightarrow> rx" where
  "rx_url_of domain =
     seqs [lits_i ''http'', Opt (lit_i CHR ''s''), lits ''://'', Opt (lits_i ''www.''), lits_i domain]"

text \<open>\<open>\[[^\]]*\]\(https?://(?:www\.)?DOMAIN[^\)]*\)\<close>, IGNORECASE\<close>

definition rx_md_link_to :: "string \<Rightarrow> rx" where
  "rx_md_link_to domain =
     seqs [lit CHR ''['', Star (Chr (\<lambda>c. c \<noteq> CHR '']'')), lit CHR '']'', lit CHR ''('',
           rx_url_of domain, Star (Chr (\<lambda>c. c \<noteq> CHR '')'')), lit CHR '')'']"

text \<open>\<open>https?://(?:www\.)?DOMAIN\S*\<close>, IGNORECASE\<close>

definition rx_raw_url_to :: "string \<Rightarrow> rx" where
  "rx_raw_url_to domain = seqs [rx_url_of domain, Star non_ws]"

fun remove_placeholder_domains :: "string list \<Rightarrow> string \<Rightarrow> string" where
  "remove_placeholder_domains [] content = content"
| "remove_placeholder_domains (domain # ds) content =
     remove_placeholder_domains ds
       (re_sub (rx_raw_url_to domain) remove (re_sub (rx_md_link_to domain) remove content))"

text \<open>
  \<open>(?i)WORD.*?(?=\n|$)\<close> under DOTALL: from the word to the end of its line (\<open>$\<close> without
  MULTILINE is the end of the text or the place before a final newline).
\<close>

definition rx_to_eol :: "string \<Rightarrow> rx" where
  "rx_to_eol w = seqs [lits_i w, LazyStar dot_all, Ahead (Alt (lit nl) Eol)]"

text \<open>\<open><!--.*?-->\<close> and \<open>/\*.*?\*/\<close> under DOTALL\<close>

definition rx_html_comment :: rx where
  "rx_html_comment = seqs [lits ''<!--'', LazyStar dot_all, lits ''-->'']"

definition rx_c_comment :: rx where
  "rx_c_comment = seqs [lits ''/*'', LazyStar dot_all, lits ''*/'']"

definition ai_patterns :: "rx list" where
  "ai_patterns =
     [rx_to_eol ''note:'', rx_to_eol ''important:'', rx_to_eol ''remember to'',
      rx_to_eol ''please'', rx_to_eol ''you should'', rx_html_comment, rx_c_comment]"

fun remove_patterns :: "rx list \<Rightarrow> string \<Rightarrow> string" where
  "remove_patterns [] content = content"
| "remove_patterns (pattern # ps) content = remove_patterns ps (re_sub pattern remove content)"

text \<open>\<open>\n\s*\n\s*\n+\<close>\<close>

definition rx_blank_lines :: rx where
  "rx_blank_lines = seqs [lit nl, Star ws, lit nl, Star ws, Plus (lit nl)]"

definition clean_ai_artifacts :: "string \<Rightarrow> string" where
  "clean_ai_artifacts content0 =
     (let content = re_sub rx_bracketed remove content0;
          content = re_sub rx_at_word remove content;
          content = remove_placeholder_domains placeholder_domains content;
          content = remove_patterns ai_patterns content;
          content = re_sub rx_blank_lines (\<lambda>m g. [nl, nl]) content;
          content = join [nl] (map strip (split_on nl content));
          content = replace_str [cr] [nl] (replace_str [cr, nl] [nl] content)
      in strip content)"

subsection \<open>\<open>markdown_to_html\<close>\<close>

text \<open>\<open>###\s*(.*)\<close>, \<open>##\s*(.*)\<close>, \<open>#\s*(.*)\<close>\<close>

definition rx_heading :: "string \<Rightarrow> rx" where
  "rx_heading hashes = seqs [lits hashes, Star ws, Grp 1 (Star dot)]"

text \<open>\<open>\*\*\*(.*?)\*\*\*\<close>, \<open>\*\*(.*?)\*\*\<close>, \<open>_(.*?)_\<close>, \<open>\*(.*?)\*\<close>\<close>

definition rx_between :: "string \<Rightarrow> rx" where
  "rx_between d = seqs [lits d, Grp 1 (LazyStar dot), lits d]"

definition tagged :: "string \<Rightarrow> string \<Rightarrow> nat \<Rightarrow> string \<Rightarrow> groups \<Rightarrow> string" where
  "tagged open_tag close_tag n m g = open_tag @ grp g n @ close_tag"

text \<open>\<open>^\s*([-*]|\d+\.)\s+(.*)$\<close>, MULTILINE\<close>

definition rx_list_item :: rx where
  "rx_list_item =
     seqs [Bol, Star ws,
           Grp 1 (Alt (Chr (\<lambda>c. c = CHR ''-'' \<or> c = CHR ''*''))
                      (Seq (Plus (Chr is_digit)) (lit CHR ''.''))),
           Plus ws, Grp 2 (Star dot), EolM]"

text \<open>\<open>(<li>.*?</li>\s*)+\<close>, DOTALL, and the test \<open><li>\s*\d+\.\<close> of \<open>wrap_lists\<close>\<close>

definition rx_list_items :: rx where
  "rx_list_items = Plus (Grp 1 (seqs [lits ''<li>'', LazyStar dot_all, lits ''</li>'', Star ws]))"

definition rx_numbered_item :: rx where
  "rx_numbered_item = seqs [lits ''<li>'', Star ws, Plus (Chr is_digit), lit CHR ''.'']"

definition wrap_lists :: "string \<Rightarrow> groups \<Rightarrow> string" where
  "wrap_lists list_items_html g =
     (if re_search rx_numbered_item list_items_html \<noteq> None
      then ''<ol>'' @ list_items_html @ ''</ol>''
      else ''<ul>'' @ list_items_html @ ''</ul>'')"

text \<open>\<open>os.path.basename\<close>: what follows the last slash.\<close>

definition basename :: "string \<Rightarrow> string" where
  "basename p = rev (takeWhile (\<lambda>c. c \<noteq> CHR ''/'') (rev p))"

text \<open>
  The double quote is written \<open>dq\<close>.  \<open>image_replacer\<close> takes the Base64 branch when
  the file path is given and non-empty and the two base names agree.  An f-string prints \<open>None\<close> as the word None.
\<close>

definition str_of_opt :: "string option \<Rightarrow> string" where
  "str_of_opt x = (case x of None \<Rightarrow> ''None'' | Some s \<Rightarrow> s)"

text \<open>\<open>!\[(.*?)\]\((.*?)\)\<close> and \<open>\[(.*?)\]\((.*?)\)\<close>\<close>

definition rx_link :: rx where
  "rx_link = seqs [lit CHR ''['', Grp 1 (LazyStar dot), lit CHR '']'', lit CHR ''('',
                   Grp 2 (LazyStar dot), lit CHR '')'']"

definition rx_image :: rx where
  "rx_image = Seq (lit CHR ''!'') rx_link"

definition dq :: string where
  "dq = [CHR 0x22]"

definition same_basename :: "string option \<Rightarrow> string \<Rightarrow> bool" where
  "same_basename main_featured_image_filepath src_url =
     (case main_featured_image_filepath of
        None \<Rightarrow> False
      | Some p \<Rightarrow> p \<noteq> [] \<and> basename src_url = basename p)"

definition image_replacer :: "string option \<Rightarrow> string option \<Rightarrow> string \<Rightarrow> groups \<Rightarrow> string" where
  "image_replacer main_featured_image_filepath main_featured_image_b64_data_uri m g =
     (let alt_text = grp g 1; src_url = grp g 2 in
      if same_basename main_featured_image_filepath src_url
      then ''<img src='' @ dq @ str_of_opt main_featured_image_b64_data_uri @ dq @ '' alt='' @ dq
           @ alt_text @ dq @ '' class='' @ dq @ ''in-content-image'' @ dq @ ''>''
      else (let escaped_alt_text = replace_str dq dq alt_text in
            ''<img src='' @ dq @ src_url @ dq @ '' alt='' @ dq @ escaped_alt_text @ dq
            @ '' class='' @ dq @ ''in-content-image'' @ dq @ ''>''))"

definition link_replacer :: "string \<Rightarrow> groups \<Rightarrow> string" where
  "link_replacer m g =
     ''<a href='' @ dq @ grp g 2 @ dq @ '' target='' @ dq @ ''_blank'' @ dq @ '' rel='' @ dq
     @ ''noopener noreferrer'' @ dq @ ''>'' @ grp g 1 @ ''</a>''"

text \<open>\<open>^\s*<(h\d|ul|ol|li|img|a|div|p|blockquote|pre|table|script|style|br)\<close>, IGNORECASE\<close>

fun alts :: "rx list \<Rightarrow> rx" where
  "alts [] = Eps"
| "alts [r] = r"
| "alts (r # rs) = Alt r (alts rs)"

definition block_tags_re :: rx where
  "block_tags_re =
     seqs [Bol, Star ws, lit CHR ''<'',
           alts (Seq (lit_i CHR ''h'') (Chr is_digit) #
                 map lits_i [''ul'', ''ol'', ''li'', ''img'', ''a'', ''div'', ''p'', ''blockquote'',
                             ''pre'', ''table'', ''script'', ''style'', ''br''])]"

text \<open>The paragraph loop: \<open>parsed_lines\<close> and \<open>current_paragraph_lines\<close> are its state.\<close>

definition flush_paragraph :: "string list \<Rightarrow> string list \<Rightarrow> string list" where
  "flush_paragraph parsed_lines current_paragraph_lines =
     (if current_paragraph_lines \<noteq> []
      then (let para_content = strip (join '' '' current_paragraph_lines) in
            if para_content \<noteq> [] then parsed_lines @ [''<p>'' @ para_content @ ''</p>'']
            else parsed_lines)
      else parsed_lines)"

fun paragraphs :: "string list \<Rightarrow> string list \<Rightarrow> string list \<Rightarrow> string list" where
  "paragraphs [] parsed_lines current_paragraph_lines =
     flush_paragraph parsed_lines current_paragraph_lines"
| "paragraphs (line # lines) parsed_lines current_paragraph_lines =
     (let stripped_line = strip line in
      if stripped_line = []
      then paragraphs lines (flush_paragraph parsed_lines current_paragraph_lines @ [[]]) []
      else if re_match block_tags_re stripped_line
      then paragraphs lines (flush_paragraph parsed_lines current_paragraph_lines @ [line]) []
      else paragraphs lines parsed_lines (current_paragraph_lines @ [line]))"

text \<open>\<open><p>\s*</p>\<close>, \<open><p><br\s*/?></p>\<close>, \<open><h1>(.*?)</h1>\<close>\<close>

definition rx_empty_p :: rx where
  "rx_empty_p = seqs [lits ''<p>'', Star ws, lits ''</p>'']"

definition rx_br_p :: rx where
  "rx_br_p = seqs [lits ''<p><br'', Star ws, Opt (lit CHR ''/''), lits ''></p>'']"

definition rx_h1 :: rx where
  "rx_h1 = seqs [lits ''<h1>'', Grp 1 (LazyStar dot), lits ''</h1>'']"

definition markdown_to_html :: "string \<Rightarrow> string option \<Rightarrow> string option \<Rightarrow> string" where
  "markdown_to_html markdown_text main_featured_image_filepath main_featured_image_b64_data_uri =
     (let html_text = clean_ai_artifacts markdown_text;
          html_text = re_sub (rx_heading ''###'') (tagged ''<h3>'' ''</h3>'' 1) html_text;
          html_text = re_sub (rx_heading ''##'') (tagged ''<h2>'' ''</h2>'' 1) html_text;
          html_text = re_sub (rx_heading ''#'') (tagged ''<h1>'' ''</h1>'' 1) html_text;
          html_text = re_sub (rx_between ''***'') (tagged ''<strong><em>'' ''</em></strong>'' 1) html_text;
          html_text = re_sub (rx_between ''**'') (tagged ''<strong>'' ''</strong>'' 1) html_text;
          html_text = re_sub (rx_between ''_'') (tagged ''<em>'' ''</em>'' 1) html_text;
          html_text = re_sub (rx_between ''*'') (tagged ''<em>'' ''</em>'' 1) html_text;
          html_text = re_sub rx_list_item (tagged ''<li>'' ''</li>'' 2) html_text;
          html_text = re_sub rx_list_items wrap_lists html_text;
          html_text = re_sub rx_image
                        (image_replacer main_featured_image_filepath main_featured_image_b64_data_uri)
                        html_text;
          html_text = re_sub rx_link link_replacer html_text;
          parsed_lines = paragraphs (split_on nl html_text) [] [];
          final_html_content = join [nl] parsed_lines;
          final_html_content = re_sub rx_empty_p remove final_html_content;
          final_html_content = re_sub rx_br_p remove final_html_content
      in re_sub rx_h1 (tagged ''<h2>'' ''</h2>'' 1) final_html_content)"

text \<open>\<open>needle in haystack\<close> for strings.\<close>

fun contains :: "string \<Rightarrow> string \<Rightarrow> bool" where
  "contains needle [] = (needle = [])"
| "contains needle (c # cs) = (take (length needle) (c # cs) = needle \<or> contains needle cs)"

section \<open>Articles and their aggregation\<close>

text \<open>
  An article is a record of the news API: each of the keys the program reads is absent,
  \<open>null\<close> or a string (the key \<open>source\<close> is an object in every article of the API and
  its name is read but never used, so it is left out).  \<open>d.get(key, default)\<close> gives the
  default for an absent key and \<open>None\<close> for \<open>null\<close>; a Python value that is a string or
  \<open>None\<close> is a \<open>string option\<close>, and it is truthy when it is a non-empty string.
\<close>

datatype field = Absent | Null | Str string

record article =
  art_title :: field
  art_description :: field
  art_content :: field
  art_url :: field
  art_urlToImage :: field

fun get_field :: "field \<Rightarrow> string \<Rightarrow> string option" where
  "get_field Absent dflt = Some dflt"
| "get_field Null dflt = None"
| "get_field (Str s) dflt = Some s"

fun truthy :: "string option \<Rightarrow> bool" where
  "truthy None = False"
| "truthy (Some s) = (s \<noteq> [])"

fun str_or_empty :: "string option \<Rightarrow> string" where
  "str_or_empty None = []"
| "str_or_empty (Some s) = s"

definition removed :: string where
  "removed = ''[Removed]''"

text \<open>\<open>title and title != '[Removed]'\<close>\<close>

definition usable :: "string option \<Rightarrow> bool" where
  "usable x = (truthy x \<and> x \<noteq> Some removed)"

text \<open>\<open>content and content.strip() != '[Removed]' and len(content.strip()) > 50\<close>\<close>

definition substantial :: "string option \<Rightarrow> bool" where
  "substantial x =
     (truthy x \<and> strip (str_or_empty x) \<noteq> removed \<and> length (strip (str_or_empty x)) > 50)"

text \<open>\<open>source_url.replace('https://', '').replace('http://', '').split('/')[0] if source_url else ''\<close>\<close>

definition source_domain_of :: "string option \<Rightarrow> string" where
  "source_domain_of source_url =
     (if truthy source_url
      then hd (split_on CHR ''/''
                 (replace_str ''http://'' [] (replace_str ''https://'' [] (str_or_empty source_url))))
      else [])"

record consolidated =
  consolidated_topic :: string
  combined_content :: string
  combined_description :: string
  image_url :: "string option"
  competitors :: "string list"
  primary_source_url :: "string option"

text \<open>
  The loop of \<open>aggregate_articles\<close>, with its six variables as arguments (\<open>image_url\<close> and
  \<open>primary_source_url_for_disclaimer\<close> are written \<open>img\<close> and \<open>primary\<close>).  The set
  \<open>competitor_domains\<close> is kept as a list without repetitions; Python fixes no order for
  \<open>list(set)\<close>.
\<close>

fun aggregate_loop ::
  "article list \<Rightarrow> string list \<Rightarrow> string list \<Rightarrow> string list \<Rightarrow> string option \<Rightarrow> string list
     \<Rightarrow> string option
     \<Rightarrow> string list \<times> string list \<times> string list \<times> string option \<times> string list \<times> string option" where
  "aggregate_loop [] consolidated_content consolidated_descriptions titles img competitor_domains primary =
     (consolidated_content, consolidated_descriptions, titles, img, competitor_domains, primary)"
| "aggregate_loop (a # rest) consolidated_content consolidated_descriptions titles img competitor_domains primary =
     (let title = get_field (art_title a) [];
          description = get_field (art_description a) [];
          content = get_field (art_content a) [];
          source_url = get_field (art_url a) [];
          article_image = get_field (art_urlToImage a) [];
          source_domain = source_domain_of source_url;
          titles1 = (if usable title then titles @ [str_or_empty title] else titles);
          descriptions1 = (if usable description
                           then consolidated_descriptions @ [str_or_empty description]
                           else consolidated_descriptions);
          content1 = (if truthy title
                      then consolidated_content @ [''### Source: '' @ str_or_empty title @ [nl, nl]]
                      else consolidated_content);
          content2 = (if truthy description then content1 @ [str_or_empty description @ [nl]]
                      else content1);
          content3 = (if substantial content then content2 @ [str_or_empty content @ [nl]]
                      else content2);
          pick = (\<not> truthy img \<and> truthy article_image);
          img1 = (if pick then article_image else img);
          primary1 = (if pick then source_url else primary);
          competitor_domains1 = (if source_domain \<noteq> [] then List.insert source_domain competitor_domains
                                 else competitor_domains)
      in aggregate_loop rest content3 descriptions1 titles1 img1 competitor_domains1 primary1)"

definition content_separator :: string where
  "content_separator = [nl, nl] @ ''---'' @ [nl, nl]"

definition no_content_notice :: string where
  "no_content_notice = ''No substantial content found from sources. AI will generate based on topic.''"

definition default_description :: "string \<Rightarrow> string" where
  "default_description category = ''A deep dive into recent developments in '' @ category @ ''.''"

definition topic_of_titles :: "string list \<Rightarrow> string" where
  "topic_of_titles titles =
     (let consolidated_topic0 = (case titles of [] \<Rightarrow> ''Recent Cryptocurrency News'' | t # _ \<Rightarrow> t) in
      if length titles > 1
      then (let consolidated_topic1 = ''Comprehensive Crypto: '' @ hd titles @ '' and more...'' in
            if length consolidated_topic1 > 150 then take 150 consolidated_topic1 @ ''...''
            else consolidated_topic1)
      else consolidated_topic0)"

definition aggregate_articles :: "article list \<Rightarrow> string \<Rightarrow> consolidated option" where
  "aggregate_articles articles_list category =
     (if articles_list = [] then None
      else
        (case aggregate_loop articles_list [] [] [] None [] None of
           (consolidated_content, consolidated_descriptions, titles, img, competitor_domains, primary) \<Rightarrow>
             (let primary1 = (if \<not> truthy primary
                              then get_field (art_url (hd articles_list))
                                     ''https://news.example.com/source-unavailable''
                              else primary);
                  descriptions1 = (if consolidated_descriptions = []
                                   then [default_description category]
                                   else consolidated_descriptions)
              in Some \<lparr> consolidated_topic = topic_of_titles titles,
                        combined_content = (if consolidated_content \<noteq> []
                                            then join content_separator consolidated_content
                                            else no_content_notice),
                        combined_description = strip (take 300 (join '' '' descriptions1)),
                        image_url = img,
                        competitors = competitor_domains,
                        primary_source_url = primary1 \<rparr>)))"

text \<open>
  The same two texts written article by article: what one article contributes to the
  content and to the descriptions.
\<close>

definition content_parts :: "article \<Rightarrow> string list" where
  "content_parts a =
     (if truthy (get_field (art_title a) [])
      then [''### Source: '' @ str_or_empty (get_field (art_title a) []) @ [nl, nl]] else []) @
     (if truthy (get_field (art_description a) [])
      then [str_or_empty (get_field (art_description a) []) @ [nl]] else []) @
     (if substantial (get_field (art_content a) [])
      then [str_or_empty (get_field (art_content a) []) @ [nl]] else [])"

definition usable_descriptions :: "article \<Rightarrow> string list" where
  "usable_descriptions a =
     (if usable (get_field (art_description a) [])
      then [str_or_empty (get_field (art_description a) [])] else [])"

text \<open>The claimed description: every description an article carries, joined by spaces, cut at 300.\<close>

definition all_descriptions :: "article \<Rightarrow> string list" where
  "all_descriptions a = (case art_description a of Str s \<Rightarrow> [s] | _ \<Rightarrow> [])"

definition claimed_description :: "article list \<Rightarrow> string" where
  "claimed_description articles_list = take 300 (join '' '' (concat (map all_descriptions articles_list)))"

section \<open>The outside world\<close>

text \<open>
  The program talks to four services, draws random numbers and sleeps.  The answers of the
  outside are an environment \<open>env\<close>: the \<open>k\<close>-th call of a service gets the \<open>k\<close>-th answer.
  What the program does is recorded in the \<open>world\<close>: a counter per service and the trace of
  events, in the order in which they happen.  An exception is a value of \<open>exc\<close>, named by
  the class that the \<open>except\<close> clauses of the program test for.
\<close>

datatype exc =
    InternalServerError
  | ResourceExhausted
  | DeadlineExceeded
  | RequestException
  | ValueError
  | JSONDecodeError
  | OtherException

datatype json =
    JNull
  | JBool bool
  | JInt int
  | JFloat rat
  | JStr string
  | JArr "json list"
  | JObj "(string \<times> json) list"

text \<open>
  A value that \<open>json.loads\<close> returns: \<open>None\<close>, a truth value, an \<open>int\<close>, a \<open>float\<close>
  (kept as a rational), a string, a list or a dictionary with string keys.  The parser
  itself is the library's and is a field of the environment; \<open>None\<close> from it stands
  for \<open>JSONDecodeError\<close>.
\<close>

fun json_truthy :: "json \<Rightarrow> bool" where
  "json_truthy JNull = False"
| "json_truthy (JBool b) = b"
| "json_truthy (JInt n) = (n \<noteq> 0)"
| "json_truthy (JFloat f) = (f \<noteq> 0)"
| "json_truthy (JStr s) = (s \<noteq> [])"
| "json_truthy (JArr xs) = (xs \<noteq> [])"
| "json_truthy (JObj kvs) = (kvs \<noteq> [])"


datatype model_id = RESEARCH_MODEL | CONTENT_MODEL

datatype gem_outcome = GemResponse string | GemRaises exc
datatype news_outcome = NewsResponse "article list" | NewsRaises exc
datatype together_outcome = TogetherUrl | TogetherNoData | TogetherRaises exc
datatype download_outcome = Downloaded string | DownloadRaises exc
datatype insert_outcome = Inserted | InsertRaises

datatype event =
    NewsApiGet
  | GeminiGenerate model_id
  | TogetherPost
  | ImageGet
  | Sleep rat
  | Composite
  | MarkdownToHtml
  | WriteHtml
  | BloggerInsert

record env =
  gemini_api :: "nat \<Rightarrow> gem_outcome"
  newsapi :: "nat \<Rightarrow> news_outcome"
  together_api :: "nat \<Rightarrow> together_outcome"
  image_download :: "nat \<Rightarrow> download_outcome"
  blogger_api :: "nat \<Rightarrow> insert_outcome"
  random_uniform :: "nat \<Rightarrow> rat"
  json_loads :: "string \<Rightarrow> json option"

record world =
  gemini_calls :: nat
  newsapi_calls :: nat
  together_calls :: nat
  download_calls :: nat
  blogger_calls :: nat
  uniform_draws :: nat
  trace :: "event list"


definition emit :: "event \<Rightarrow> world \<Rightarrow> world" where
  "emit e w = w\<lparr> trace := trace w @ [e] \<rparr>"







definition blogger_insert :: "env \<Rightarrow> world \<Rightarrow> insert_outcome \<times> world" where
  "blogger_insert e w =
     (blogger_api e (blogger_calls w), emit BloggerInsert (w\<lparr> blogger_calls := Suc (blogger_calls w) \<rparr>))"

section \<open>Retry loops\<close>


















section \<open>The generative text calls\<close>

text \<open>
  The prompts are not modelled: the environment answers a call by its number, whatever it is
  asked.  \<open>RESEARCH_MODEL\<close> and \<open>CONTENT_MODEL\<close> are set exactly when \<open>GEMINI_API_KEY\<close> is;
  the functions take that as the flag \<open>model_set\<close>.
\<close>

subsection \<open>\<open>extract_multiple_trending_topics\<close>\<close>













section \<open>Publishing\<close>

subsection \<open>The labels of \<open>post_to_blogger\<close>\<close>













section \<open>The featured image\<close>

text \<open>
  \<open>transform_image\<close> is modelled by what it draws.  The picture it returns is the list of
  drawing steps applied to the canvas, in order; pixels are the library's business.  What
  the library decides is an \<open>imaging\<close> record: whether the bytes open as an image and
  survive trimming, resizing and enhancement, the state of the branding logo, the metrics
  of the chosen font, and whether the result can be saved.  Lengths are pixels.  The
  program computes them as \<open>int(a * x)\<close> with a float \<open>x\<close>; \<open>int_times a p q\<close> is the
  truncation of \<open>a * p / q\<close>, which is the same number for the constants used here.
\<close>

datatype logo_state =
    NoLogoPath
  | LogoFileMissing
  | LogoUnreadable
  | LogoResized nat
































section \<open>Verification\<close>

subsection \<open>Character classes, bit by bit\<close>

text \<open>
  The character predicates are defined by code-point ranges.  For evaluation they are also
  characterised on the eight bits of a character (least significant first); each equation
  is checked against the definition on all 256 characters.
\<close>

lemma is_space_code [code]:
  "is_space (Char b0 b1 b2 b3 b4 b5 b6 b7) =
     (if b7 then \<not> b6 \<and> \<not> b4 \<and> \<not> b3 \<and> \<not> b1 \<and> (if b5 then \<not> b2 \<and> \<not> b0 else b2 \<and> b0)
      else \<not> b6 \<and>
           (if b5 then \<not> b4 \<and> \<not> b3 \<and> \<not> b2 \<and> \<not> b1 \<and> \<not> b0
            else if b4 then b3 \<and> b2
            else b3 \<and> \<not> (b2 \<and> b1) \<and> (b2 \<or> b1 \<or> b0)))"
  by (cases b0; cases b1; cases b2; cases b3; cases b4; cases b5; cases b6; cases b7;
      simp add: is_space_def in_range_def)

lemma is_digit_code [code]:
  "is_digit (Char b0 b1 b2 b3 b4 b5 b6 b7) =
     (\<not> b7 \<and> \<not> b6 \<and> b5 \<and> b4 \<and> \<not> (b3 \<and> (b2 \<or> b1)))"
  by (cases b0; cases b1; cases b2; cases b3; cases b4; cases b5; cases b6; cases b7;
      simp add: is_digit_def in_range_def)


lemma is_alnum_code [code]:
  "is_alnum (Char b0 b1 b2 b3 b4 b5 b6 b7) =
     (if b7
      then (if b6 then \<not> (b0 \<and> b1 \<and> b2 \<and> \<not> b3 \<and> b4)
            else b5 \<and>
                 (if b4
                  then (if b3 then (if b2 then \<not> (b1 \<and> b0) else (b1 \<or> b0) \<and> \<not> (b1 \<and> b0))
                        else (if b2 then \<not> b1 \<and> b0 else b1))
                  else b3 \<and> \<not> b2 \<and> b1 \<and> \<not> b0))
      else (if b6 then (b0 \<or> b1 \<or> b2 \<or> b3 \<or> b4) \<and> \<not> (b4 \<and> b3 \<and> (b2 \<or> (b1 \<and> b0)))
            else b5 \<and> b4 \<and> \<not> (b3 \<and> (b2 \<or> b1))))"
  by (cases b0; cases b1; cases b2; cases b3; cases b4; cases b5; cases b6; cases b7;
      simp add: is_alnum_def is_digit_def is_ascii_upper_def is_ascii_lower_def in_range_def)

subsection \<open>Filenames\<close>


















subsection \<open>Markdown to HTML\<close>

text \<open>
  The link pattern and its template, run on their own, turn a markdown link into an
  anchor: this is the path \<open>markdown_to_html\<close> means links to take.
\<close>

lemma link_pass_alone:
  "re_sub rx_link link_replacer ''[a](b)'' =
     ''<a href='' @ dq @ ''b'' @ dq @ '' target='' @ dq @ ''_blank'' @ dq @ '' rel='' @ dq
     @ ''noopener noreferrer'' @ dq @ ''>a</a>''"
  by code_simp

text \<open>
  Claim C1 (links and images survive the cleaning pass and are rendered).  The code does
  otherwise: the first substitution of \<open>clean_ai_artifacts\<close> deletes every bracketed
  text on a line, so the link and image patterns that run later find nothing.  A link
  leaves its URL in parentheses, an image leaves an exclamation mark and its URL, and no
  anchor or image tag is produced.
\<close>

theorem markdown_to_html_loses_links:
  "clean_ai_artifacts ''[CoinDesk](https://www.coindesk.com/a)'' = ''(https://www.coindesk.com/a)'' \<and>
   markdown_to_html ''[CoinDesk](https://www.coindesk.com/a)'' None None
     = ''<p>(https://www.coindesk.com/a)</p>'' \<and>
   markdown_to_html ''![chart](https://img.org/c.png)'' None None
     = ''<p>!(https://img.org/c.png)</p>''"
  by code_simp

text \<open>
  Claim C10 (the returned fragment never contains an \<open><h1>\<close> tag).  The final pass
  rewrites \<open><h1>...</h1>\<close> only when both tags stand on one line; an \<open><h1>\<close> that
  the content carries without its closing tag on the same line is returned as it is.
  A markdown heading is demoted as intended.
\<close>

theorem markdown_to_html_keeps_h1:
  "markdown_to_html ''<h1>News'' None None = ''<h1>News'' \<and>
   contains ''<h1>'' (markdown_to_html ''<h1>News'' None None) \<and>
   markdown_to_html ''# Title here'' None None = ''<h2>Title here</h2>''"
  by code_simp

subsection \<open>Aggregation\<close>

lemma aggregate_loop_content:
  "fst (aggregate_loop arts cc cd ts img doms prim) = cc @ concat (map content_parts arts)"
  by (induction arts arbitrary: cc cd ts img doms prim)
     (simp_all add: content_parts_def Let_def)

lemma aggregate_loop_descriptions:
  "fst (snd (aggregate_loop arts cc cd ts img doms prim)) = cd @ concat (map usable_descriptions arts)"
  by (induction arts arbitrary: cc cd ts img doms prim)
     (simp_all add: usable_descriptions_def Let_def)

lemma length_strip_le: "length (strip s) \<le> length s"
proof -
  have a: "length (lstrip t) \<le> length t" for t
    unfolding lstrip_def by (rule length_dropWhile_le)
  have b: "length (rstrip t) \<le> length t" for t
    unfolding rstrip_def using length_dropWhile_le [of is_space "rev t"] by simp
  from a [of s] b [of "lstrip s"] show ?thesis unfolding strip_def by linarith
qed

text \<open>
  Claim C6, as amended.  The empty list gives \<open>None\<close>.  A non-empty list gives a record;
  its \<open>combined_content\<close> joins with the separator what each article contributes (its
  title line, its description, its content when substantial), or is a fixed notice when no
  article contributes anything; its \<open>combined_description\<close> is the usable descriptions
  (non-empty, not \<open>[Removed]\<close>) joined by spaces, or a default sentence naming the
  category when there is none, cut at 300 characters and stripped; so it never has more
  than 300 characters.
\<close>

theorem aggregate_articles_result:
  "aggregate_articles [] category = None \<and>
   (articles_list \<noteq> [] \<longrightarrow>
      (\<exists>r. aggregate_articles articles_list category = Some r \<and>
           combined_content r =
             (if concat (map content_parts articles_list) = [] then no_content_notice
              else join content_separator (concat (map content_parts articles_list))) \<and>
           combined_description r =
             strip (take 300 (join '' ''
               (if concat (map usable_descriptions articles_list) = []
                then [default_description category]
                else concat (map usable_descriptions articles_list)))) \<and>
           length (combined_description r) \<le> 300))"
proof (intro conjI impI)
  show "aggregate_articles [] category = None"
    by (simp add: aggregate_articles_def)
next
  assume ne: "articles_list \<noteq> []"
  obtain cc cd ts img doms prim where
    loop: "aggregate_loop articles_list [] [] [] None [] None = (cc, cd, ts, img, doms, prim)"
    by (metis prod_cases6)
  from aggregate_loop_content [of articles_list "[]" "[]" "[]" None "[]" None] loop
  have cc: "cc = concat (map content_parts articles_list)" by simp
  from aggregate_loop_descriptions [of articles_list "[]" "[]" "[]" None "[]" None] loop
  have cd: "cd = concat (map usable_descriptions articles_list)" by simp
  define d where "d = strip (take 300 (join '' '' (if cd = [] then [default_description category] else cd)))"
  have "length d \<le> length (take 300 (join '' '' (if cd = [] then [default_description category] else cd)))"
    unfolding d_def by (rule length_strip_le)
  then have len: "length d \<le> 300" by simp
  from ne loop have
    "\<exists>r. aggregate_articles articles_list category = Some r \<and>
         combined_content r = (if cc = [] then no_content_notice else join content_separator cc) \<and>
         combined_description r = d"
    by (simp add: aggregate_articles_def Let_def d_def)
  with len show "\<exists>r. aggregate_articles articles_list category = Some r \<and>
           combined_content r =
             (if concat (map content_parts articles_list) = [] then no_content_notice
              else join content_separator (concat (map content_parts articles_list))) \<and>
           combined_description r =
             strip (take 300 (join '' ''
               (if concat (map usable_descriptions articles_list) = []
                then [default_description category]
                else concat (map usable_descriptions articles_list)))) \<and>
           length (combined_description r) \<le> 300"
    unfolding d_def cc cd by auto
qed

theorem aggregate_articles_result_witness:
  "map_option combined_description
     (aggregate_articles
        [\<lparr> art_title = Str ''ETH'', art_description = Str ''Ether moves. '', art_content = Str ''short'',
            art_url = Str ''http://decrypt.co/1'', art_urlToImage = Str ''http://i/1.png'' \<rparr>,
         \<lparr> art_title = Str ''BTC'', art_description = Str ''[Removed]'', art_content = Null,
            art_url = Absent, art_urlToImage = Absent \<rparr>] ''crypto'')
   = Some ''Ether moves.'' \<and>
   map_option combined_content
     (aggregate_articles
        [\<lparr> art_title = Str ''ETH'', art_description = Str ''Ether moves. '', art_content = Str ''short'',
            art_url = Str ''http://decrypt.co/1'', art_urlToImage = Str ''http://i/1.png'' \<rparr>,
         \<lparr> art_title = Str ''BTC'', art_description = Str ''[Removed]'', art_content = Null,
            art_url = Absent, art_urlToImage = Absent \<rparr>] ''crypto'')
   = Some (''### Source: ETH'' @ [nl, nl] @ content_separator @ ''Ether moves. '' @ [nl]
           @ content_separator @ ''### Source: BTC'' @ [nl, nl] @ content_separator @ ''[Removed]'' @ [nl])"
proof -
  let ?arts = "[\<lparr> art_title = Str ''ETH'', art_description = Str ''Ether moves. '', art_content = Str ''short'',
            art_url = Str ''http://decrypt.co/1'', art_urlToImage = Str ''http://i/1.png'' \<rparr>,
         \<lparr> art_title = Str ''BTC'', art_description = Str ''[Removed]'', art_content = Null,
            art_url = Absent, art_urlToImage = Absent \<rparr>]"
  have ne: "?arts \<noteq> []" by simp
  have c: "(if concat (map content_parts ?arts) = [] then no_content_notice
              else join content_separator (concat (map content_parts ?arts)))
           = ''### Source: ETH'' @ [nl, nl] @ content_separator @ ''Ether moves. '' @ [nl]
           @ content_separator @ ''### Source: BTC'' @ [nl, nl] @ content_separator @ ''[Removed]'' @ [nl]"
    by code_simp
  have d: "strip (take 300 (join '' ''
               (if concat (map usable_descriptions ?arts) = []
                then [default_description ''crypto'']
                else concat (map usable_descriptions ?arts)))) = ''Ether moves.''"
    by code_simp
  from aggregate_articles_result [of "''crypto''" ?arts] ne c d
  show ?thesis by auto
qed

text \<open>
  Claim C6 as stated fails where no article has a description: the space-joined
  descriptions are then the empty text, and the code puts its default sentence instead.
\<close>

theorem aggregate_description_counterexample:
  "map_option combined_description
     (aggregate_articles
        [\<lparr> art_title = Str ''Bitcoin rallies'', art_description = Null, art_content = Absent,
            art_url = Str ''https://www.coindesk.com/x/y'', art_urlToImage = Absent \<rparr>] ''crypto'')
   = Some ''A deep dive into recent developments in crypto.'' \<and>
   claimed_description
        [\<lparr> art_title = Str ''Bitcoin rallies'', art_description = Null, art_content = Absent,
            art_url = Str ''https://www.coindesk.com/x/y'', art_urlToImage = Absent \<rparr>] = []"
  by code_simp

subsection \<open>Retry loops\<close>











subsection \<open>Trending topics\<close>




subsection \<open>Labels\<close>










subsection \<open>The featured image\<close>












end
